theory Spec2Isabelle
  imports Main "HOL-Library.AList"
begin

section \<open>Sandbox routes: data model\<close>

text \<open>
  The sandbox routes (descriptor cache, authorization middleware, browse and read
  handlers) are TypeScript. Dates are compared through their millisecond value, so a
  point in time is an \<open>int\<close> of milliseconds. Exceptions are values of the type
  \<open>error\<close>; \<open>OtherError\<close> stands for any thrown value that is an instance of none of
  the four imported error classes.
\<close>

datatype task_status = TASK_STARTING | TASK_RUNNING | TASK_KILLED | UNKNOWN

datatype error =
    MesosAgentNotFoundError
  | TaskNotFoundError
  | FileNotFoundError
  | UnauthorizedAccessError string
  | OtherError

record TaskInfo =
  agent_url :: string
  framework_id :: string
  container_id :: string
  statuses :: "task_status list"
  labels :: "(string \<times> string) list"
  user :: "string option"

record SlaveState =
  flags_work_dir :: string
  state_id :: string

record SandboxDescriptor =
  agentURL :: string
  workDir :: string
  slaveID :: string
  frameworkID :: string
  containerID :: string
  task :: TaskInfo
  last_status :: task_status

record cache_entry =
  expireAt :: int
  locator :: SandboxDescriptor

text \<open>
  The cache object \<open>{[taskID]: {expireAt, locator}}\<close> is an association list in
  insertion order: \<open>cache[k] = v\<close> is \<open>AList.update\<close>, \<open>delete cache[k]\<close> is
  \<open>AList.delete\<close>, \<open>k in cache\<close> and \<open>cache[k]\<close> go through \<open>map_of\<close>, and
  \<open>for (k in cache)\<close> walks \<open>map fst\<close>.
\<close>

type_synonym sandbox_cache = "(string \<times> cache_entry) list"

section \<open>The descriptor cache\<close>

text \<open>\<open>cache[taskID].expireAt < new Date()\<close>, the test of the sweep's first loop.\<close>

definition is_expired :: "sandbox_cache \<Rightarrow> int \<Rightarrow> string \<Rightarrow> bool" where
  "is_expired cache now taskID =
     (case map_of cache taskID of None \<Rightarrow> False | Some e \<Rightarrow> expireAt e < now)"

text \<open>
  \<open>clearExpiredEntries\<close>: the first loop collects the expired task IDs, the second
  deletes them one by one. The loops are synchronous, so one clock reading serves.
\<close>

definition clearExpiredEntries :: "sandbox_cache \<Rightarrow> int \<Rightarrow> sandbox_cache" where
  "clearExpiredEntries cache now =
     (let expiredTaskIDs = filter (is_expired cache now) (map fst cache)
      in fold AList.delete expiredTaskIDs cache)"

text \<open>
  The function returned by \<open>cacheSandboxDescriptor fetcher\<close>. \<open>now\<close> is the clock when
  the entry is tested, \<open>later\<close> the clock when the awaited fetcher has resolved and the
  entry is stored. The result carries the returned value or the thrown error, the cache
  afterwards and the number of fetcher calls made.
\<close>

definition sandboxCache ::
  "(string \<Rightarrow> error + SandboxDescriptor) \<Rightarrow> sandbox_cache \<Rightarrow> int \<Rightarrow> int \<Rightarrow> string
     \<Rightarrow> (error + SandboxDescriptor) \<times> sandbox_cache \<times> nat" where
  "sandboxCache fetcher cache now later taskID =
     (case map_of cache taskID of
        Some e \<Rightarrow>
          if expireAt e > now then (Inr (locator e), cache, 0)
          else (case fetcher taskID of
                  Inl err \<Rightarrow> (Inl err, cache, 1)
                | Inr res \<Rightarrow>
                    (Inr res,
                     AList.update taskID \<lparr>expireAt = later + 10000, locator = res\<rparr> cache, 1))
      | None \<Rightarrow>
          (case fetcher taskID of
             Inl err \<Rightarrow> (Inl err, cache, 1)
           | Inr res \<Rightarrow>
               (Inr res,
                AList.update taskID \<lparr>expireAt = later + 10000, locator = res\<rparr> cache, 1)))"

text \<open>
  The fetcher handed to \<open>cacheSandboxDescriptor\<close>. \<open>getTaskInfo\<close> and
  \<open>getMesosSlaveState\<close> are collaborators of the \<open>mesos\<close> module and are parameters
  here; either may throw.
\<close>

definition fetchSandboxDescriptor ::
  "(string \<Rightarrow> error + TaskInfo) \<Rightarrow> (string \<Rightarrow> error + SlaveState) \<Rightarrow> string
     \<Rightarrow> error + SandboxDescriptor" where
  "fetchSandboxDescriptor getTaskInfo getMesosSlaveState taskID =
     (case getTaskInfo taskID of
        Inl err \<Rightarrow> Inl err
      | Inr taskInfo \<Rightarrow>
          (case getMesosSlaveState (agent_url taskInfo) of
             Inl err \<Rightarrow> Inl err
           | Inr slaveState \<Rightarrow>
               (let status = (if length (statuses taskInfo) > 0
                              then last (statuses taskInfo) else UNKNOWN)
                in Inr \<lparr>agentURL = agent_url taskInfo,
                        workDir = flags_work_dir slaveState,
                        slaveID = state_id slaveState,
                        frameworkID = framework_id taskInfo,
                        containerID = container_id taskInfo,
                        task = taskInfo,
                        last_status = status\<rparr>)))"

section \<open>Sandbox routes: requests, responses and handlers\<close>

record User =
  cn :: "string option"
  memberOf :: "string list option"

record Query =
  taskID :: string
  access_token :: "string option"
  path :: string
  offset :: string
  size_q :: string
  filename :: string
  directory :: string

record Request =
  req_user :: User
  query :: Query

text \<open>
  What a handler has written to \<open>res\<close>: the status (200 unless \<open>res.status\<close> was
  called) and the argument of \<open>res.send\<close>. The payload type is the type of the sandbox
  I/O collaborator's result.
\<close>

datatype 'p body = Text string | Payload 'p | Empty

record 'p response =
  status :: nat
  body :: "'p body"

text \<open>
  The result of \<open>readSandboxFile\<close>: only its \<open>eof\<close> field is touched by the read
  handler; every other field is kept in \<open>content\<close>.
\<close>

record 'a ReadResult =
  content :: 'a
  eof :: bool

text \<open>
  The \<open>catch\<close> block of the handlers \<open>/api/sandbox/browse\<close>, \<open>/api/sandbox/read\<close> and
  \<open>/api/sandbox/download\<close>: an \<open>instanceof\<close> chain in this order, each branch ending in
  \<open>return\<close>. The handlers below are the handlers as they run on a response object that
  nothing has been written to yet.
\<close>

definition handler_catch :: "error \<Rightarrow> 'p response" where
  "handler_catch err =
     (if err = MesosAgentNotFoundError then \<lparr>status = 400, body = Text ''Mesos agent not found''\<rparr>
      else if err = FileNotFoundError then \<lparr>status = 404, body = Text ''File not found''\<rparr>
      else if (case err of UnauthorizedAccessError _ \<Rightarrow> True | _ \<Rightarrow> False)
        then \<lparr>status = 403, body = Text ''Unauthorized''\<rparr>
      else if err = TaskNotFoundError then \<lparr>status = 404, body = Text ''Task not found''\<rparr>
      else \<lparr>status = 503, body = Empty\<rparr>)"

text \<open>
  The \<open>catch\<close> block of the middleware on \<open>/api/sandbox/*\<close>. The second component tells
  whether control leaves the \<open>catch\<close> block without \<open>return\<close> and so reaches
  \<open>await next()\<close>: the three \<open>instanceof\<close> branches return, the final
  \<open>res.status(500); res.send();\<close> does not.
\<close>

definition middleware_catch :: "error \<Rightarrow> 'p response \<times> bool" where
  "middleware_catch err =
     (if err = MesosAgentNotFoundError
        then (\<lparr>status = 400, body = Text ''Mesos agent not found''\<rparr>, False)
      else if (case err of UnauthorizedAccessError _ \<Rightarrow> True | _ \<Rightarrow> False)
        then (\<lparr>status = 403, body = Text ''Unauthorized''\<rparr>, False)
      else if err = TaskNotFoundError
        then (\<lparr>status = 404, body = Text ''Task not found''\<rparr>, False)
      else (\<lparr>status = 500, body = Empty\<rparr>, True))"

record Env =
  AUTHORIZATIONS_ENABLED :: bool
  AUTHORIZE_ALL_SANDBOXES :: bool

text \<open>
  The middleware on \<open>/api/sandbox/*\<close>. \<open>CheckTaskAuthorization\<close> belongs to the
  \<open>authorizations\<close> module and is a parameter: \<open>None\<close> when it returns, \<open>Some err\<close> when
  it throws. The result is the response written (if any), whether \<open>next()\<close> was called,
  and the cache afterwards.
\<close>

definition sandbox_middleware ::
  "Env \<Rightarrow> (string \<Rightarrow> error + SandboxDescriptor)
     \<Rightarrow> (User \<Rightarrow> TaskInfo \<Rightarrow> string option \<Rightarrow> error option)
     \<Rightarrow> sandbox_cache \<Rightarrow> int \<Rightarrow> int \<Rightarrow> Request
     \<Rightarrow> ('p response option \<times> bool) \<times> sandbox_cache" where
  "sandbox_middleware env fetcher CheckTaskAuthorization cache now later req =
     (if AUTHORIZATIONS_ENABLED env \<and> \<not> AUTHORIZE_ALL_SANDBOXES env then
        (case sandboxCache fetcher cache now later (taskID (query req)) of
           (Inl err, cache', _) \<Rightarrow>
             (case middleware_catch err of (r, falls) \<Rightarrow> ((Some r, falls), cache'))
         | (Inr sandbox, cache', _) \<Rightarrow>
             (case CheckTaskAuthorization (req_user req) (task sandbox)
                     (access_token (query req)) of
                Some err \<Rightarrow>
                  (case middleware_catch err of (r, falls) \<Rightarrow> ((Some r, falls), cache'))
              | None \<Rightarrow> ((None, True), cache')))
      else ((None, True), cache))"

text \<open>The location arguments every sandbox I/O call receives.\<close>

type_synonym sandbox_args = "string \<times> string \<times> string \<times> string \<times> string \<times> string \<times> string"

definition sandbox_args :: "SandboxDescriptor \<Rightarrow> Query \<Rightarrow> sandbox_args" where
  "sandbox_args sandbox q =
     (agentURL sandbox, workDir sandbox, slaveID sandbox, frameworkID sandbox,
      taskID q, containerID sandbox, path q)"

text \<open>
  The handler of \<open>/api/sandbox/browse\<close>. The third component of the result tells whether
  the collaborator \<open>browseSandbox\<close> was called.
\<close>

definition get_sandbox_browse ::
  "(string \<Rightarrow> error + SandboxDescriptor) \<Rightarrow> (sandbox_args \<Rightarrow> error + 'p)
     \<Rightarrow> sandbox_cache \<Rightarrow> int \<Rightarrow> int \<Rightarrow> Query
     \<Rightarrow> 'p response \<times> sandbox_cache \<times> bool" where
  "get_sandbox_browse fetcher browseSandbox cache now later q =
     (case sandboxCache fetcher cache now later (taskID q) of
        (Inl err, cache', _) \<Rightarrow> (handler_catch err, cache', False)
      | (Inr sandbox, cache', _) \<Rightarrow>
          (case browseSandbox (sandbox_args sandbox q) of
             Inl err \<Rightarrow> (handler_catch err, cache', True)
           | Inr files \<Rightarrow> (\<lparr>status = 200, body = Payload files\<rparr>, cache', True)))"

text \<open>
  The handler of \<open>/api/sandbox/read\<close>. The third component of the result tells whether
  the collaborator \<open>readSandboxFile\<close> was called.
\<close>

definition get_sandbox_read ::
  "(string \<Rightarrow> error + SandboxDescriptor)
     \<Rightarrow> (sandbox_args \<times> string \<times> string \<Rightarrow> error + 'a ReadResult)
     \<Rightarrow> sandbox_cache \<Rightarrow> int \<Rightarrow> int \<Rightarrow> Query
     \<Rightarrow> 'a ReadResult response \<times> sandbox_cache \<times> bool" where
  "get_sandbox_read fetcher readSandboxFile cache now later q =
     (case sandboxCache fetcher cache now later (taskID q) of
        (Inl err, cache', _) \<Rightarrow> (handler_catch err, cache', False)
      | (Inr sandbox, cache', _) \<Rightarrow>
          (case readSandboxFile (sandbox_args sandbox q, offset q, size_q q) of
             Inl err \<Rightarrow> (handler_catch err, cache', True)
           | Inr files \<Rightarrow>
               (let files' =
                  (if \<not> (last_status sandbox = TASK_RUNNING
                          \<or> last_status sandbox = TASK_STARTING)
                   then files\<lparr>eof := True\<rparr> else files)
                in (\<lparr>status = 200, body = Payload files'\<rparr>, cache', True))))"

text \<open>
  What a download writes: the two headers set before the transfer and the bytes the
  collaborator streams into the response.
\<close>

record 'b Download =
  content_type :: string
  content_disposition :: string
  streamed :: 'b

text \<open>
  The handler of \<open>/api/sandbox/download\<close>. The collaborator is
  \<open>downloadSandboxDirectory\<close> when \<open>req.query.directory === 'true'\<close> and
  \<open>downloadSandboxFileAsStream\<close> otherwise; it either throws before it has written to
  the response or streams its bytes, after which the handler ends the response. The
  third component of the result tells whether a collaborator was called.
\<close>

definition get_sandbox_download ::
  "(string \<Rightarrow> error + SandboxDescriptor)
     \<Rightarrow> (sandbox_args \<Rightarrow> error + 'b) \<Rightarrow> (sandbox_args \<Rightarrow> error + 'b)
     \<Rightarrow> sandbox_cache \<Rightarrow> int \<Rightarrow> int \<Rightarrow> Query
     \<Rightarrow> 'b Download response \<times> sandbox_cache \<times> bool" where
  "get_sandbox_download fetcher downloadSandboxDirectory downloadSandboxFileAsStream
       cache now later q =
     (case sandboxCache fetcher cache now later (taskID q) of
        (Inl err, cache', _) \<Rightarrow> (handler_catch err, cache', False)
      | (Inr sandbox, cache', _) \<Rightarrow>
          (case (if directory q = ''true''
                 then downloadSandboxDirectory (sandbox_args sandbox q)
                 else downloadSandboxFileAsStream (sandbox_args sandbox q)) of
             Inl err \<Rightarrow> (handler_catch err, cache', True)
           | Inr bytes \<Rightarrow>
               (\<lparr>status = 200,
                 body = Payload \<lparr>content_type = ''application/octet-stream'',
                                 content_disposition = ''attachment; filename='' @ filename q,
                                 streamed = bytes\<rparr>\<rparr>, cache', True)))"

text \<open>
  A GET on \<open>/api/sandbox/read\<close> as Express routes it: the middleware first, and the read
  handler when the middleware has called \<open>next()\<close>. \<open>fetcher1\<close> is the cluster as the
  middleware's lookup finds it, \<open>fetcher2\<close> as the handler's lookup finds it; \<open>t1\<close> and
  \<open>t2\<close> are the clock pairs of the two lookups. The result records what the middleware
  wrote to \<open>res\<close>, whether the read handler was invoked, and whether the handler called
  \<open>readSandboxFile\<close>.
\<close>

record 'p route_result =
  middleware_response :: "'p response option"
  handler_ran :: bool
  delegate_called :: bool
  cache_after :: sandbox_cache

definition route_sandbox_read ::
  "Env \<Rightarrow> (string \<Rightarrow> error + SandboxDescriptor) \<Rightarrow> (string \<Rightarrow> error + SandboxDescriptor)
     \<Rightarrow> (User \<Rightarrow> TaskInfo \<Rightarrow> string option \<Rightarrow> error option)
     \<Rightarrow> (sandbox_args \<times> string \<times> string \<Rightarrow> error + 'a ReadResult)
     \<Rightarrow> sandbox_cache \<Rightarrow> int \<times> int \<Rightarrow> int \<times> int \<Rightarrow> Request
     \<Rightarrow> 'a ReadResult route_result" where
  "route_sandbox_read env fetcher1 fetcher2 CheckTaskAuthorization readSandboxFile
       cache t1 t2 req =
     (case sandbox_middleware env fetcher1 CheckTaskAuthorization cache (fst t1) (snd t1) req of
        ((r, True), cache1) \<Rightarrow>
          (case get_sandbox_read fetcher2 readSandboxFile cache1 (fst t2) (snd t2) (query req) of
             (r', cache2, called) \<Rightarrow>
               \<lparr>middleware_response = r, handler_ran = True,
                delegate_called = called, cache_after = cache2\<rparr>)
      | ((r, False), cache1) \<Rightarrow>
          \<lparr>middleware_response = r, handler_ran = False,
           delegate_called = False, cache_after = cache1\<rparr>)"

section \<open>Authorization of task requests\<close>

text \<open>
  \<open>task.labels[KEY].split(',')\<close>: the pieces between commas, the empty string giving
  one empty piece.
\<close>

fun split_comma :: "string \<Rightarrow> string list" where
  "split_comma [] = [[]]"
| "split_comma (c # cs) =
     (if c = CHR '','' then [] # split_comma cs
      else (case split_comma cs of
              [] \<Rightarrow> [[c]]
            | w # ws \<Rightarrow> (c # w) # ws))"

record AuthConfig =
  authorizations_enabled :: bool
  surface_exempt :: bool
  allow_list_label :: string
  super_admins :: "string list"

datatype decision = Allow | Deny string

text \<open>
  Modelled from the spec: \<open>CheckTaskAuthorization\<close> of the \<open>authorizations\<close> module,
  which the middleware \<open>AllowConfiguredUsers\<close> calls and which is not among the
  sources. Section 4.2 of the specification gives its rules, evaluated in order, the
  first match deciding: (1) enforcement disabled or the surface exempt: allow; (2) the
  task carries an allow-list label: allow iff the principal's name is in the
  comma-separated list; (3) the task's owning user equals the principal's name: allow;
  (4) the principal's groups intersect the super-admin groups: allow; (5) a token is
  supplied and validates against the task: allow; (6) otherwise deny, with the reason
  for a root container when the task is one. Token validation and the test for a root
  container are the collaborators' and are parameters.
\<close>

definition CheckTaskAuthorization ::
  "AuthConfig \<Rightarrow> (TaskInfo \<Rightarrow> string \<Rightarrow> bool) \<Rightarrow> (TaskInfo \<Rightarrow> bool)
     \<Rightarrow> User \<Rightarrow> TaskInfo \<Rightarrow> string option \<Rightarrow> decision" where
  "CheckTaskAuthorization cfg token_valid root_container usr t accessToken =
     (let deny = Deny (if root_container t then ''unauthorized access to root container''
                       else ''unauthorized access to container'')
      in if \<not> authorizations_enabled cfg \<or> surface_exempt cfg then Allow
         else (case map_of (labels t) (allow_list_label cfg) of
                 Some names \<Rightarrow>
                   (case cn usr of
                      Some name \<Rightarrow> if name \<in> set (split_comma names) then Allow else deny
                    | None \<Rightarrow> deny)
               | None \<Rightarrow>
                   if user t \<noteq> None \<and> user t = cn usr then Allow
                   else if list_ex (\<lambda>g. g \<in> set (super_admins cfg))
                             (case memberOf usr of None \<Rightarrow> [] | Some gs \<Rightarrow> gs)
                     then Allow
                   else if (case accessToken of None \<Rightarrow> False | Some tok \<Rightarrow> token_valid t tok)
                     then Allow
                   else deny))"

text \<open>What a middleware did with the request: called \<open>next()\<close> or answered it.\<close>

datatype outcome = Next | Respond "unit response"

text \<open>
  The middleware \<open>AllowConfiguredUsers\<close>. \<open>user.cn && user.memberOf\<close> holds for a
  non-empty name and a group list that is present (an empty array is truthy);
  \<open>task_id\<close> is \<open>req.body.task_id\<close> of the parsed body, and \<open>!req.body.task_id\<close> holds
  when it is missing or empty. Anything thrown by \<open>getTaskInfo\<close> or by
  \<open>CheckTaskAuthorization\<close> is answered with 403.
\<close>

definition AllowConfiguredUsers ::
  "AuthConfig \<Rightarrow> (TaskInfo \<Rightarrow> string \<Rightarrow> bool) \<Rightarrow> (TaskInfo \<Rightarrow> bool)
     \<Rightarrow> (string \<Rightarrow> error + TaskInfo) \<Rightarrow> User \<Rightarrow> string option \<Rightarrow> outcome" where
  "AllowConfiguredUsers cfg token_valid root_container getTaskInfo usr task_id =
     (if (case cn usr of None \<Rightarrow> False | Some name \<Rightarrow> name \<noteq> []) \<and> memberOf usr \<noteq> None then
        (case task_id of
           None \<Rightarrow> Respond \<lparr>status = 406, body = Text ''Request must contain key `task_id`.''\<rparr>
         | Some tid \<Rightarrow>
             if tid = [] then
               Respond \<lparr>status = 406, body = Text ''Request must contain key `task_id`.''\<rparr>
             else
               (case getTaskInfo tid of
                  Inl err \<Rightarrow> Respond \<lparr>status = 403, body = Empty\<rparr>
                | Inr task_info \<Rightarrow>
                    (case CheckTaskAuthorization cfg token_valid root_container usr task_info None of
                       Deny reason \<Rightarrow> Respond \<lparr>status = 403, body = Empty\<rparr>
                     | Allow \<Rightarrow> Next)))
      else Respond \<lparr>status = 403, body = Empty\<rparr>)"

section \<open>Terminal sessions\<close>

text \<open>
  The terminal server (\<open>app.js\<close>) keeps two global objects, \<open>terminals\<close> and \<open>logs\<close>,
  both keyed by process id. A pty object is shared between the table \<open>terminals\<close> and the
  closures of the handlers registered on it, so pty objects live in a store \<open>ptys\<close>
  addressed by reference, and \<open>terminals\<close> maps a pid to a reference. WebSocket objects
  live in a store of their own. \<open>exn\<close> lists what the JavaScript can throw here:
  \<open>TypeError\<close> from reading a property of \<open>undefined\<close>, \<open>NotOpened\<close> from \<open>ws.send\<close>
  on a socket that is not open, \<open>PtyError\<close> from \<open>pty.spawn\<close>.
\<close>

datatype exn = TypeError | NotOpened | PtyError

datatype payload = Str string | Undefined

text \<open>
  The two kinds of \<open>'data'\<close> listener the code registers on a pty: the log appender of
  the POST handler and the forwarder of the WebSocket handler.
\<close>

datatype listener = AppendLog | Forward nat

record pty =
  pid :: int
  data_listeners :: "listener list"
  killed :: bool
  resizes :: "(int \<times> int) list"
  written :: "string list"

record socket =
  ws_open :: bool
  received :: "payload list"
  bound_term :: "nat option"

record app =
  ptys :: "nat \<Rightarrow> pty"
  next_ref :: nat
  terminals :: "int \<rightharpoonup> nat"
  logs :: "int \<rightharpoonup> string"
  sockets :: "nat \<Rightarrow> socket"
  next_ws :: nat

datatype reply = Body string | BodyPid int | NoBody

text \<open>
  \<open>terminals[parseInt(req.params.pid)]\<close>: the handle is the parsed parameter, \<open>None\<close>
  for \<open>NaN\<close>; a missing key gives \<open>undefined\<close>.
\<close>

definition lookup_terminal :: "app \<Rightarrow> int option \<Rightarrow> nat option" where
  "lookup_terminal s h = (case h of None \<Rightarrow> None | Some p \<Rightarrow> terminals s p)"

text \<open>
  \<open>app.post('/terminals/:task_id')\<close>. \<open>spawned\<close> is the outcome of \<open>pty.spawn\<close>: the pid
  of the new process, or \<open>None\<close> when it throws.
\<close>

definition post_terminals :: "app \<Rightarrow> string \<Rightarrow> int option \<Rightarrow> (exn + reply) \<times> app" where
  "post_terminals s task_id spawned =
     (if task_id = [] then (Inr (Body ''You must provide a valid task id.''), s)
      else (case spawned of
              None \<Rightarrow> (Inl PtyError, s)
            | Some p \<Rightarrow>
                (Inr (BodyPid p),
                 s\<lparr>ptys := (ptys s)(next_ref s :=
                       \<lparr>pid = p, data_listeners = [AppendLog], killed = False,
                        resizes = [], written = []\<rparr>),
                   next_ref := Suc (next_ref s),
                   terminals := (terminals s)(p \<mapsto> next_ref s),
                   logs := (logs s)(p \<mapsto> [])\<rparr>)))"

text \<open>\<open>ws.send(m)\<close>: delivers \<open>m\<close> to the client, or throws when the socket is not open.\<close>

definition ws_send :: "app \<Rightarrow> nat \<Rightarrow> payload \<Rightarrow> exn + app" where
  "ws_send s w m =
     (if ws_open (sockets s w)
      then Inr (s\<lparr>sockets := (sockets s)(w :=
                    (sockets s w)\<lparr>received := received (sockets s w) @ [m]\<rparr>)\<rparr>)
      else Inl NotOpened)"

text \<open>
  One \<open>'data'\<close> listener of the pty with pid \<open>p\<close>, run on the chunk \<open>d\<close>.
  \<open>logs[term.pid] += data\<close> on a missing entry concatenates to \<open>undefined\<close>; the
  forwarder wraps \<open>ws.send(data)\<close> in \<open>try\<close> with an empty \<open>catch\<close>.
\<close>

fun run_listener :: "int \<Rightarrow> string \<Rightarrow> listener \<Rightarrow> app \<Rightarrow> exn + app" where
  "run_listener p d AppendLog s =
     Inr (s\<lparr>logs := (logs s)(p \<mapsto> (case logs s p of None \<Rightarrow> ''undefined'' | Some l \<Rightarrow> l) @ d)\<rparr>)"
| "run_listener p d (Forward w) s =
     (case ws_send s w (Str d) of Inl ex \<Rightarrow> Inr s | Inr s' \<Rightarrow> Inr s')"

text \<open>
  Emitting \<open>'data'\<close>: the listeners run in registration order, and an exception leaving
  a listener leaves the emit.
\<close>

fun emit_data :: "int \<Rightarrow> string \<Rightarrow> listener list \<Rightarrow> app \<Rightarrow> exn + app" where
  "emit_data p d [] s = Inr s"
| "emit_data p d (l # ls) s =
     (case run_listener p d l s of Inl ex \<Rightarrow> Inl ex | Inr s' \<Rightarrow> emit_data p d ls s')"

definition term_data :: "app \<Rightarrow> nat \<Rightarrow> string \<Rightarrow> exn + app" where
  "term_data s r d = emit_data (pid (ptys s r)) d (data_listeners (ptys s r)) s"


text \<open>\<open>app.post('/terminals/:pid/size')\<close>, with \<open>cols\<close> and \<open>rows\<close> already parsed.\<close>

definition post_terminals_size ::
  "app \<Rightarrow> int option \<Rightarrow> int \<Rightarrow> int \<Rightarrow> (exn + reply) \<times> app" where
  "post_terminals_size s h cols rows =
     (case lookup_terminal s h of
        None \<Rightarrow> (Inl TypeError, s)
      | Some r \<Rightarrow>
          (Inr NoBody,
           s\<lparr>ptys := (ptys s)(r := (ptys s r)\<lparr>resizes := resizes (ptys s r) @ [(cols, rows)]\<rparr>)\<rparr>))"

text \<open>
  \<open>app.ws('/terminals/:pid')\<close>: a client connects; the framework hands the handler a
  fresh open socket (the reference \<open>next_ws s\<close>). The handler looks the pty up, sends
  \<open>logs[term.pid]\<close>, and registers the forwarder and the socket's \<open>message\<close> and
  \<open>close\<close> handlers, which close over the pty.
\<close>

definition ws_terminals :: "app \<Rightarrow> int option \<Rightarrow> (exn + reply) \<times> app" where
  "ws_terminals s h =
     (let w = next_ws s;
          s0 = s\<lparr>sockets := (sockets s)(w := \<lparr>ws_open = True, received = [], bound_term = None\<rparr>),
                 next_ws := Suc w\<rparr>
      in case lookup_terminal s0 h of
           None \<Rightarrow> (Inl TypeError, s0)
         | Some r \<Rightarrow>
             (case ws_send s0 w (case logs s0 (pid (ptys s0 r)) of
                                   None \<Rightarrow> Undefined | Some l \<Rightarrow> Str l) of
                Inl ex \<Rightarrow> (Inl ex, s0)
              | Inr s1 \<Rightarrow>
                  (Inr NoBody,
                   s1\<lparr>ptys := (ptys s1)(r := (ptys s1 r)
                          \<lparr>data_listeners := data_listeners (ptys s1 r) @ [Forward w]\<rparr>),
                      sockets := (sockets s1)(w := (sockets s1 w)\<lparr>bound_term := Some r\<rparr>)\<rparr>)))"

text \<open>\<open>ws.on('message')\<close>: the message is written to the pty.\<close>

definition ws_message :: "app \<Rightarrow> nat \<Rightarrow> string \<Rightarrow> app" where
  "ws_message s w msg =
     (case bound_term (sockets s w) of
        None \<Rightarrow> s
      | Some r \<Rightarrow> s\<lparr>ptys := (ptys s)(r := (ptys s r)\<lparr>written := written (ptys s r) @ [msg]\<rparr>)\<rparr>)"

text \<open>
  The socket \<open>w\<close> closes; \<open>ws.on('close')\<close> kills the pty and deletes
  \<open>terminals[term.pid]\<close> and \<open>logs[term.pid]\<close>.
\<close>

definition ws_close :: "app \<Rightarrow> nat \<Rightarrow> app" where
  "ws_close s w =
     (let s0 = s\<lparr>sockets := (sockets s)(w := (sockets s w)\<lparr>ws_open := False\<rparr>)\<rparr>
      in case bound_term (sockets s w) of
           None \<Rightarrow> s0
         | Some r \<Rightarrow>
             s0\<lparr>ptys := (ptys s0)(r := (ptys s0 r)\<lparr>killed := True\<rparr>),
                terminals := (terminals s0)(pid (ptys s0 r) := None),
                logs := (logs s0)(pid (ptys s0 r) := None)\<rparr>)"

text \<open>
  What can happen to the server, and a run of such events. The three request handlers
  are called by the framework's router, which takes what a handler throws; the server
  then goes on in the state the handler left. The callbacks for output, messages and
  closing run from the event loop.
\<close>

datatype event =
    Spawn string "int option"
  | Data nat string
  | Resize "int option" int int
  | Connect "int option"
  | WsMessage nat string
  | WsClose nat

fun step :: "app \<Rightarrow> event \<Rightarrow> app" where
  "step s (Spawn task_id spawned) = snd (post_terminals s task_id spawned)"
| "step s (Data r d) = (case term_data s r d of Inl ex \<Rightarrow> s | Inr s' \<Rightarrow> s')"
| "step s (Resize h cols rows) = snd (post_terminals_size s h cols rows)"
| "step s (Connect h) = snd (ws_terminals s h)"
| "step s (WsMessage w msg) = ws_message s w msg"
| "step s (WsClose w) = ws_close s w"

fun spawns :: "int \<Rightarrow> event \<Rightarrow> bool" where
  "spawns p (Spawn task_id spawned) = (spawned = Some p)"
| "spawns p _ = False"

definition run :: "app \<Rightarrow> event list \<Rightarrow> app" where
  "run s evs = fold (\<lambda>ev s. step s ev) evs s"

text \<open>The server at start-up: \<open>terminals = {}\<close>, \<open>logs = {}\<close>, nothing allocated.\<close>

definition init_app :: app where
  "init_app =
     \<lparr>ptys = (\<lambda>_. \<lparr>pid = 0, data_listeners = [], killed = False, resizes = [], written = []\<rparr>),
      next_ref = 0, terminals = Map.empty, logs = Map.empty,
      sockets = (\<lambda>_. \<lparr>ws_open = False, received = [], bound_term = None\<rparr>), next_ws = 0\<rparr>"

section \<open>Example values\<close>

definition example_task :: TaskInfo where
  "example_task =
     \<lparr>agent_url = ''http://agent-1:5051'', framework_id = ''fw-1'', container_id = ''ct-1'',
      statuses = [TASK_STARTING, TASK_RUNNING], labels = [], user = Some ''alice''\<rparr>"

definition example_sandbox :: SandboxDescriptor where
  "example_sandbox =
     \<lparr>agentURL = ''http://agent-1:5051'', workDir = ''/var/lib/mesos'', slaveID = ''S1'',
      frameworkID = ''fw-1'', containerID = ''ct-1'', task = example_task,
      last_status = TASK_RUNNING\<rparr>"

definition example_request :: Request where
  "example_request =
     \<lparr>req_user = \<lparr>cn = Some ''mallory'', memberOf = Some []\<rparr>,
      query = \<lparr>taskID = ''t-1'', access_token = None, path = ''/stdout'',
               offset = ''0'', size_q = ''100'', filename = ''stdout'',
               directory = ''false''\<rparr>\<rparr>"

definition example_config :: AuthConfig where
  "example_config =
     \<lparr>authorizations_enabled = True, surface_exempt = False,
      allow_list_label = ''debug_allowed_to'', super_admins = [''admins'']\<rparr>"

section \<open>Properties of the descriptor cache\<close>

lemma map_of_fold_delete:
  "map_of (fold AList.delete ks c) k = (if k \<in> set ks then None else map_of c k)"
  by (induction ks arbitrary: c) (auto simp: delete_conv')

lemma map_of_clearExpiredEntries:
  "map_of (clearExpiredEntries cache now) k =
     (case map_of cache k of None \<Rightarrow> None
      | Some e \<Rightarrow> if expireAt e < now then None else Some e)"
proof (cases "map_of cache k")
  case None
  then show ?thesis
    by (simp add: clearExpiredEntries_def map_of_fold_delete)
next
  case (Some e)
  then have "k \<in> set (map fst cache)"
    by (metis map_of_eq_None_iff option.distinct(1) set_map)
  with Some show ?thesis
    by (simp add: clearExpiredEntries_def map_of_fold_delete is_expired_def)
qed



lemma sandboxCache_absent:
  "map_of cache T = None \<Longrightarrow>
     sandboxCache fetcher cache now later T =
       (case fetcher T of
          Inl err \<Rightarrow> (Inl err, cache, 1)
        | Inr res \<Rightarrow>
            (Inr res, AList.update T \<lparr>expireAt = later + 10000, locator = res\<rparr> cache, 1))"
  by (simp add: sandboxCache_def)


lemma sweep_keeps_resolve:
  assumes "swept \<le> now"
  shows "fst (sandboxCache f (clearExpiredEntries cache swept) now later T)
           = fst (sandboxCache f cache now later T)
       \<and> snd (snd (sandboxCache f (clearExpiredEntries cache swept) now later T))
           = snd (snd (sandboxCache f cache now later T))"
  using assms
  by (auto simp: sandboxCache_def map_of_clearExpiredEntries split: option.splits sum.splits)



text \<open>
  Claim C9. A sweep at clock \<open>swept\<close> removes exactly the entries whose \<open>expireAt\<close> lies
  before \<open>swept\<close>: afterwards a key is bound iff it was bound to an entry with
  \<open>expireAt\<close> not before \<open>swept\<close>, and then to that same entry. The sweep is advisory: a
  call of the resolver at any clock \<open>now\<close> not before the sweep returns the same value
  (or throws the same error) and makes the same number of fetcher calls on the swept
  cache as on the unswept one.
\<close>

theorem sweep_advisory:
  "map_of (clearExpiredEntries cache swept) k =
     (case map_of cache k of None \<Rightarrow> None
      | Some e \<Rightarrow> if expireAt e < swept then None else Some e)
   \<and> (swept \<le> now \<longrightarrow>
        fst (sandboxCache f (clearExpiredEntries cache swept) now later T)
          = fst (sandboxCache f cache now later T)
      \<and> snd (snd (sandboxCache f (clearExpiredEntries cache swept) now later T))
          = snd (snd (sandboxCache f cache now later T)))"
  using map_of_clearExpiredEntries [of cache swept k]
    sweep_keeps_resolve [of swept now f cache later T]
  by blast

theorem sweep_advisory_witness:
  "map_of (clearExpiredEntries
       [(''t-1'', \<lparr>expireAt = 10005, locator = example_sandbox\<rparr>),
        (''t-2'', \<lparr>expireAt = 12000, locator = example_sandbox\<rparr>)] 11000) ''t-1'' = None
   \<and> (11000::int) \<le> 11500
   \<and> fst (sandboxCache (\<lambda>_. Inl TaskNotFoundError) (clearExpiredEntries
       [(''t-1'', \<lparr>expireAt = 10005, locator = example_sandbox\<rparr>),
        (''t-2'', \<lparr>expireAt = 12000, locator = example_sandbox\<rparr>)] 11000) 11500 11501 ''t-2'')
     = Inr example_sandbox"
proof -
  have r: "fst (sandboxCache (\<lambda>_. Inl TaskNotFoundError)
       [(''t-1'', \<lparr>expireAt = 10005, locator = example_sandbox\<rparr>),
        (''t-2'', \<lparr>expireAt = 12000, locator = example_sandbox\<rparr>)] 11500 11501 ''t-2'')
     = Inr example_sandbox"
    by (simp add: sandboxCache_def)
  show ?thesis
    using r sweep_advisory [of "[(''t-1'', \<lparr>expireAt = 10005, locator = example_sandbox\<rparr>),
        (''t-2'', \<lparr>expireAt = 12000, locator = example_sandbox\<rparr>)]" 11000 "''t-1''" 11500
        "\<lambda>_. Inl TaskNotFoundError" 11501 "''t-2''"]
    by simp
qed

section \<open>Properties of the sandbox routes\<close>

lemma fetch_last_status:
  assumes "fetchSandboxDescriptor getTaskInfo getMesosSlaveState T = Inr sandbox"
  shows "last_status sandbox =
           (if statuses (task sandbox) = [] then UNKNOWN else last (statuses (task sandbox)))"
  using assms
  by (auto simp: fetchSandboxDescriptor_def split: sum.splits)

text \<open>
  Claim C10. When the read handler has resolved a descriptor, the sandbox I/O call has
  returned a result, and the descriptor's \<open>last_status\<close> is neither \<open>TASK_RUNNING\<close> nor
  \<open>TASK_STARTING\<close>, the handler sends that result with \<open>eof\<close> set to true, whatever
  \<open>eof\<close> the collaborator reported. A descriptor fetched for a task whose status list
  is empty has \<open>last_status = UNKNOWN\<close> and so falls under this case.
\<close>

theorem read_forces_eof:
  "(sandboxCache fetcher cache now later (taskID q) = (Inr sandbox, cache', n)
      \<and> readSandboxFile (sandbox_args sandbox q, offset q, size_q q) = Inr files
      \<and> last_status sandbox \<noteq> TASK_RUNNING \<and> last_status sandbox \<noteq> TASK_STARTING
    \<longrightarrow> get_sandbox_read fetcher readSandboxFile cache now later q
          = (\<lparr>status = 200, body = Payload (files\<lparr>eof := True\<rparr>)\<rparr>, cache', True))
   \<and> (fetchSandboxDescriptor getTaskInfo getMesosSlaveState T = Inr fetched
        \<and> statuses (task fetched) = []
      \<longrightarrow> last_status fetched = UNKNOWN
          \<and> last_status fetched \<noteq> TASK_RUNNING \<and> last_status fetched \<noteq> TASK_STARTING)"
  using fetch_last_status [of getTaskInfo getMesosSlaveState T fetched]
  by (auto simp: get_sandbox_read_def)

lemma ex_fetch:
  "fetchSandboxDescriptor (\<lambda>_. Inr (example_task\<lparr>statuses := []\<rparr>))
       (\<lambda>_. Inr \<lparr>flags_work_dir = ''/var/lib/mesos'', state_id = ''S1''\<rparr>) ''t-1''
     = Inr (example_sandbox\<lparr>task := example_task\<lparr>statuses := []\<rparr>, last_status := UNKNOWN\<rparr>)"
  by (simp add: fetchSandboxDescriptor_def example_task_def example_sandbox_def)

theorem read_forces_eof_witness:
  "get_sandbox_read
      (fetchSandboxDescriptor (\<lambda>_. Inr (example_task\<lparr>statuses := []\<rparr>))
         (\<lambda>_. Inr \<lparr>flags_work_dir = ''/var/lib/mesos'', state_id = ''S1''\<rparr>))
      (\<lambda>_. Inr \<lparr>content = ''log line'', eof = False\<rparr>) [] 0 3 (query example_request)
    = (\<lparr>status = 200, body = Payload \<lparr>content = ''log line'', eof = True\<rparr>\<rparr>,
       [(''t-1'', \<lparr>expireAt = 10003,
                   locator = example_sandbox\<lparr>task := example_task\<lparr>statuses := []\<rparr>,
                                              last_status := UNKNOWN\<rparr>\<rparr>)], True)
   \<and> last_status (example_sandbox\<lparr>task := example_task\<lparr>statuses := []\<rparr>,
                                   last_status := UNKNOWN\<rparr>) = UNKNOWN"
proof -
  let ?gti = "\<lambda>_::string. (Inr (example_task\<lparr>statuses := []\<rparr>) :: error + TaskInfo)"
  let ?gss = "\<lambda>_::string. (Inr \<lparr>flags_work_dir = ''/var/lib/mesos'', state_id = ''S1''\<rparr>
                 :: error + SlaveState)"
  let ?sb = "example_sandbox\<lparr>task := example_task\<lparr>statuses := []\<rparr>, last_status := UNKNOWN\<rparr>"
  let ?c = "[(''t-1'', \<lparr>expireAt = 10003, locator = ?sb\<rparr>)]"
  have a: "sandboxCache (fetchSandboxDescriptor ?gti ?gss) [] 0 3 (taskID (query example_request))
             = (Inr ?sb, ?c, 1)"
    by (simp add: sandboxCache_def ex_fetch example_request_def)
  have b: "statuses (task ?sb) = []" by simp
  have c: "fetchSandboxDescriptor ?gti ?gss ''t-1'' = Inr ?sb" by (rule ex_fetch)
  show ?thesis
    using a b c
      read_forces_eof [of "fetchSandboxDescriptor ?gti ?gss" "[]" 0 3 "query example_request"
        ?sb ?c 1 "\<lambda>_. Inr \<lparr>content = ''log line'', eof = False\<rparr>"
        "\<lparr>content = ''log line'', eof = False\<rparr>" ?gti ?gss "''t-1''" ?sb]
    by simp
qed

text \<open>
  With authorization enforced, a request that \<open>CheckTaskAuthorization\<close> refuses is
  answered with 403 and goes no further; a request it accepts reaches the handler.
\<close>

lemma middleware_deny_stops:
  assumes "AUTHORIZATIONS_ENABLED env" and "\<not> AUTHORIZE_ALL_SANDBOXES env"
    and "sandboxCache fetcher1 cache (fst t1) (snd t1) (taskID (query req)) = (Inr sandbox, cache1, n)"
    and "check (req_user req) (task sandbox) (access_token (query req))
           = Some (UnauthorizedAccessError reason)"
  shows "route_sandbox_read env fetcher1 fetcher2 check readSandboxFile cache t1 t2 req
           = \<lparr>middleware_response = Some \<lparr>status = 403, body = Text ''Unauthorized''\<rparr>,
              handler_ran = False, delegate_called = False, cache_after = cache1\<rparr>"
  using assms
  by (simp add: route_sandbox_read_def sandbox_middleware_def middleware_catch_def)

lemma middleware_allow_proceeds:
  assumes "AUTHORIZATIONS_ENABLED env" and "\<not> AUTHORIZE_ALL_SANDBOXES env"
    and "sandboxCache fetcher1 cache (fst t1) (snd t1) (taskID (query req)) = (Inr sandbox, cache1, n)"
    and "check (req_user req) (task sandbox) (access_token (query req)) = None"
  shows "middleware_response
           (route_sandbox_read env fetcher1 fetcher2 check readSandboxFile cache t1 t2 req) = None
       \<and> handler_ran
           (route_sandbox_read env fetcher1 fetcher2 check readSandboxFile cache t1 t2 req)"
  using assms
  by (simp add: route_sandbox_read_def sandbox_middleware_def split: prod.splits)

text \<open>
  Claim C1 (the code departs from it). Authorization is enforced, and the middleware's
  descriptor lookup fails with an error that is none of \<open>MesosAgentNotFoundError\<close>,
  \<open>UnauthorizedAccessError\<close>, \<open>TaskNotFoundError\<close> (the cluster is unreachable, say).
  The \<open>catch\<close> block answers 500 and, having no \<open>return\<close> there, goes on to
  \<open>next()\<close>: the read handler runs, its own lookup succeeds, and \<open>readSandboxFile\<close> is
  called, although authorization was never evaluated for the request and
  \<open>CheckTaskAuthorization\<close> would have refused it.
\<close>

theorem middleware_500_reaches_handler:
  "route_sandbox_read \<lparr>AUTHORIZATIONS_ENABLED = True, AUTHORIZE_ALL_SANDBOXES = False\<rparr>
      (\<lambda>_. Inl OtherError) (\<lambda>_. Inr example_sandbox)
      (\<lambda>_ _ _. Some (UnauthorizedAccessError ''Unauthorized access to container.''))
      (\<lambda>_. Inr \<lparr>content = ''file bytes'', eof = False\<rparr>) [] (0, 0) (1, 2) example_request
    = \<lparr>middleware_response = Some \<lparr>status = 500, body = Empty\<rparr>,
       handler_ran = True, delegate_called = True,
       cache_after = [(''t-1'', \<lparr>expireAt = 10002, locator = example_sandbox\<rparr>)]\<rparr>"
  by (simp add: route_sandbox_read_def sandbox_middleware_def middleware_catch_def
      get_sandbox_read_def sandboxCache_def example_request_def)

text \<open>
  Claim C8 as stated fails: the handlers answer \<open>FileNotFoundError\<close> and
  \<open>TaskNotFoundError\<close> with the same status 404, so the statuses of the four error
  classes of the sandbox routes are not pairwise distinct.
\<close>

theorem statuses_not_distinct:
  "\<not> distinct (map (\<lambda>err. status (handler_catch err :: unit response))
       [TaskNotFoundError, MesosAgentNotFoundError, FileNotFoundError,
        UnauthorizedAccessError ''Unauthorized access to container.''])"
  by (simp add: handler_catch_def)

lemma handler_catch_table:
  "handler_catch err =
     (case err of
        MesosAgentNotFoundError \<Rightarrow> \<lparr>status = 400, body = Text ''Mesos agent not found''\<rparr>
      | TaskNotFoundError \<Rightarrow> \<lparr>status = 404, body = Text ''Task not found''\<rparr>
      | FileNotFoundError \<Rightarrow> \<lparr>status = 404, body = Text ''File not found''\<rparr>
      | UnauthorizedAccessError _ \<Rightarrow> \<lparr>status = 403, body = Text ''Unauthorized''\<rparr>
      | OtherError \<Rightarrow> \<lparr>status = 503, body = Empty\<rparr>)"
  by (cases err) (simp_all add: handler_catch_def)

lemma browse_answers_error:
  assumes "sandboxCache fetcher cache now later (taskID q) = (Inl err, cache', n)
           \<or> (sandboxCache fetcher cache now later (taskID q) = (Inr sandbox, cache', n)
              \<and> browseSandbox (sandbox_args sandbox q) = Inl err)"
  shows "fst (get_sandbox_browse fetcher browseSandbox cache now later q) = handler_catch err"
  using assms by (auto simp: get_sandbox_browse_def)

section \<open>Properties of the authorization middleware\<close>

text \<open>
  Claim C5 as stated fails: a principal named like the task's owning user, whose
  group-membership list is absent, is answered with 403 by \<open>AllowConfiguredUsers\<close>;
  the guard \<open>user.cn && user.memberOf\<close> refuses the request before the task is looked
  at.
\<close>

theorem owner_without_groups_refused:
  "cn \<lparr>cn = Some ''alice'', memberOf = None\<rparr> = user example_task
   \<and> AllowConfiguredUsers example_config (\<lambda>_ _. False) (\<lambda>_. False) (\<lambda>_. Inr example_task)
        \<lparr>cn = Some ''alice'', memberOf = None\<rparr> (Some ''t-1'')
      = Respond \<lparr>status = 403, body = Empty\<rparr>"
  by (simp add: AllowConfiguredUsers_def example_task_def)

text \<open>
  By rule 2 of the specification an allow-list label decides before ownership is
  considered, so an owner whom the label omits is refused as well.
\<close>

lemma owner_off_allow_list_refused:
  "CheckTaskAuthorization example_config (\<lambda>_ _. False) (\<lambda>_. False)
       \<lparr>cn = Some ''carol'', memberOf = Some []\<rparr>
       (example_task\<lparr>labels := [(''debug_allowed_to'', ''alice,bob'')], user := Some ''carol''\<rparr>) None
     = Deny ''unauthorized access to container''"
  by (simp add: CheckTaskAuthorization_def example_config_def)

lemma owner_allowed:
  assumes "cn usr = Some name" and "user t = Some name"
    and "map_of (labels t) (allow_list_label cfg) = None
         \<or> (\<exists>names. map_of (labels t) (allow_list_label cfg) = Some names
               \<and> name \<in> set (split_comma names))"
  shows "CheckTaskAuthorization cfg token_valid root_container usr t accessToken = Allow"
  using assms by (auto simp: CheckTaskAuthorization_def Let_def)

text \<open>
  Claim C5, amended. Let the principal have a non-empty name and a group-membership
  list that is present (it may be empty), let the request name a task that the lookup
  finds, and let the task's owning user equal the principal's name. If the task
  carries no allow-list label, or a label that lists the principal, then authorization
  allows, whatever the groups are and whether or not a token is supplied, and
  \<open>AllowConfiguredUsers\<close> calls \<open>next()\<close>.
\<close>

theorem owner_passes:
  assumes "cn usr = Some name" and "name \<noteq> []" and "memberOf usr = Some groups"
    and "task_id = Some tid" and "tid \<noteq> []" and "getTaskInfo tid = Inr t"
    and "user t = Some name"
    and "map_of (labels t) (allow_list_label cfg) = None
         \<or> (\<exists>names. map_of (labels t) (allow_list_label cfg) = Some names
               \<and> name \<in> set (split_comma names))"
  shows "CheckTaskAuthorization cfg token_valid root_container usr t accessToken = Allow
       \<and> AllowConfiguredUsers cfg token_valid root_container getTaskInfo usr task_id = Next"
proof -
  have a: "CheckTaskAuthorization cfg token_valid root_container usr t tok = Allow" for tok
    using assms(1,7,8) by (rule owner_allowed)
  show ?thesis
    using assms a [of None] a [of accessToken]
    by (simp add: AllowConfiguredUsers_def)
qed

theorem owner_passes_witness:
  "CheckTaskAuthorization example_config (\<lambda>_ _. False) (\<lambda>_. False)
       \<lparr>cn = Some ''alice'', memberOf = Some []\<rparr> example_task None = Allow
   \<and> AllowConfiguredUsers example_config (\<lambda>_ _. False) (\<lambda>_. False) (\<lambda>_. Inr example_task)
        \<lparr>cn = Some ''alice'', memberOf = Some []\<rparr> (Some ''t-1'') = Next"
proof -
  have l: "map_of (labels example_task) (allow_list_label example_config) = None
         \<or> (\<exists>names. map_of (labels example_task) (allow_list_label example_config) = Some names
               \<and> ''alice'' \<in> set (split_comma names))"
    by (simp add: example_task_def)
  have u: "user example_task = Some ''alice''" by (simp add: example_task_def)
  show ?thesis
    using owner_passes [where usr = "\<lparr>cn = Some ''alice'', memberOf = Some []\<rparr>"
        and name = "''alice''" and groups = "[]" and task_id = "Some ''t-1''" and tid = "''t-1''"
        and getTaskInfo = "\<lambda>_. Inr example_task" and t = example_task and cfg = example_config
        and token_valid = "\<lambda>_ _. False" and root_container = "\<lambda>_. False" and accessToken = None,
        OF _ _ _ _ _ _ u l]
    by simp
qed

section \<open>Properties of the terminal sessions\<close>







lemma run_listener_terminals:
  "run_listener p d l s = Inr s' \<Longrightarrow> terminals s' = terminals s"
  by (cases l) (auto simp: ws_send_def split: sum.splits if_splits)

lemma emit_data_terminals:
  "emit_data p d ls s = Inr s' \<Longrightarrow> terminals s' = terminals s"
proof (induction ls arbitrary: s)
  case Nil
  then show ?case by simp
next
  case (Cons l ls)
  then show ?case
    by (auto split: sum.splits dest: run_listener_terminals)
qed

lemma step_keeps_unregistered:
  assumes "terminals s p = None" and "\<not> spawns p ev"
  shows "terminals (step s ev) p = None"
proof (cases ev)
  case (Spawn task_id spawned)
  with assms show ?thesis
    by (auto simp: post_terminals_def split: option.splits)
next
  case (Data r d)
  with assms show ?thesis
    by (auto simp: term_data_def split: sum.splits dest: emit_data_terminals)
next
  case (Resize h cols rows)
  with assms show ?thesis
    by (auto simp: post_terminals_size_def split: option.splits)
next
  case (Connect h)
  with assms show ?thesis
    by (auto simp: ws_terminals_def ws_send_def lookup_terminal_def Let_def split: option.splits)
next
  case (WsMessage w msg)
  with assms show ?thesis
    by (auto simp: ws_message_def split: option.splits)
next
  case (WsClose w)
  with assms show ?thesis
    by (auto simp: ws_close_def Let_def split: option.splits)
qed

lemma run_keeps_unregistered:
  assumes "terminals s p = None" and "\<forall>ev \<in> set evs. \<not> spawns p ev"
  shows "terminals (run s evs) p = None"
  using assms
proof (induction evs arbitrary: s)
  case Nil
  then show ?case by (simp add: run_def)
next
  case (Cons ev evs)
  have "terminals (step s ev) p = None"
    using Cons.prems by (simp add: step_keeps_unregistered)
  moreover have "run s (ev # evs) = run (step s ev) evs"
    by (simp add: run_def)
  ultimately show ?case
    using Cons.IH [of "step s ev"] Cons.prems(2) by simp
qed

lemma close_destroys:
  assumes "bound_term (sockets s w) = Some r"
  shows "killed (ptys (ws_close s w) r)"
    and "terminals (ws_close s w) (pid (ptys s r)) = None"
    and "logs (ws_close s w) (pid (ptys s r)) = None"
  using assms by (simp_all add: ws_close_def Let_def)

lemma unregistered_fails:
  assumes "terminals s p = None"
  shows "post_terminals_size s (Some p) cols rows = (Inl TypeError, s)"
    and "fst (ws_terminals s (Some p)) = Inl TypeError"
  using assms
  by (simp_all add: post_terminals_size_def ws_terminals_def lookup_terminal_def Let_def)

text \<open>
  Claim C4. When the channel \<open>w\<close> attached to a session closes, the session's process
  is killed, its log is deleted and its entry in \<open>terminals\<close> is deleted. From then on,
  through any run of events that does not spawn a process with the same pid again, the
  lookup of the handle gives \<open>undefined\<close>, and both users of the lookup, the resize
  handler and the WebSocket handler, fail on it and change nothing. The code has no
  error class of its own for this: the failure the specification calls
  \<open>SessionNotFoundError\<close> is the \<open>TypeError\<close> thrown when a property of the undefined
  lookup result is read.
\<close>

theorem close_destroys_session:
  assumes "bound_term (sockets s w) = Some r"
  shows "killed (ptys (ws_close s w) r)
       \<and> logs (ws_close s w) (pid (ptys s r)) = None
       \<and> terminals (ws_close s w) (pid (ptys s r)) = None
       \<and> ((\<forall>ev \<in> set evs. \<not> spawns (pid (ptys s r)) ev) \<longrightarrow>
            lookup_terminal (run (ws_close s w) evs) (Some (pid (ptys s r))) = None
            \<and> post_terminals_size (run (ws_close s w) evs) (Some (pid (ptys s r))) cols rows
                = (Inl TypeError, run (ws_close s w) evs)
            \<and> fst (ws_terminals (run (ws_close s w) evs) (Some (pid (ptys s r)))) = Inl TypeError)"
proof -
  let ?p = "pid (ptys s r)"
  have t: "terminals (ws_close s w) ?p = None"
    using assms by (rule close_destroys)
  have "terminals (run (ws_close s w) evs) ?p = None" if "\<forall>ev \<in> set evs. \<not> spawns ?p ev"
    using t that by (rule run_keeps_unregistered)
  then show ?thesis
    using close_destroys [OF assms] unregistered_fails(1) [where s = "run (ws_close s w) evs" and p = ?p and cols = cols and rows = rows]
      unregistered_fails(2) [where s = "run (ws_close s w) evs" and p = ?p]
    by (simp add: lookup_terminal_def)
qed

lemma ex_attached:
  "bound_term (sockets (run init_app [Spawn ''t-2'' (Some 42), Data 0 ''hello'', Connect (Some 42)]) 0)
     = Some 0"
  "pid (ptys (run init_app [Spawn ''t-2'' (Some 42), Data 0 ''hello'', Connect (Some 42)]) 0) = 42"
  "terminals (run init_app [Spawn ''t-2'' (Some 42), Data 0 ''hello'', Connect (Some 42)]) 42 = Some 0"
  "logs (run init_app [Spawn ''t-2'' (Some 42), Data 0 ''hello'', Connect (Some 42)]) 42 = Some ''hello''"
  by (simp_all add: run_def init_app_def post_terminals_def ws_terminals_def ws_send_def
      lookup_terminal_def term_data_def Let_def)

theorem close_destroys_session_witness:
  "bound_term (sockets (run init_app [Spawn ''t-2'' (Some 42), Data 0 ''hello'', Connect (Some 42)]) 0)
     = Some 0
   \<and> terminals (run init_app [Spawn ''t-2'' (Some 42), Data 0 ''hello'', Connect (Some 42)]) 42 = Some 0
   \<and> terminals (ws_close
        (run init_app [Spawn ''t-2'' (Some 42), Data 0 ''hello'', Connect (Some 42)]) 0) 42 = None
   \<and> logs (ws_close
        (run init_app [Spawn ''t-2'' (Some 42), Data 0 ''hello'', Connect (Some 42)]) 0) 42 = None
   \<and> killed (ptys (ws_close
        (run init_app [Spawn ''t-2'' (Some 42), Data 0 ''hello'', Connect (Some 42)]) 0) 0)
   \<and> fst (ws_terminals (run (ws_close
        (run init_app [Spawn ''t-2'' (Some 42), Data 0 ''hello'', Connect (Some 42)]) 0)
          [Data 0 ''late'', Resize (Some 42) 120 40, Spawn ''t-3'' (Some 43)]) (Some 42))
       = Inl TypeError"
proof -
  let ?s = "run init_app [Spawn ''t-2'' (Some 42), Data 0 ''hello'', Connect (Some 42)]"
  have h: "bound_term (sockets ?s 0) = Some 0" by (rule ex_attached)
  have e: "\<forall>ev \<in> set [Data 0 ''late'', Resize (Some 42) 120 40, Spawn ''t-3'' (Some 43)].
             \<not> spawns (pid (ptys ?s 0)) ev"
    by (simp add: ex_attached)
  show ?thesis
    using e close_destroys_session [OF h,
        where evs = "[Data 0 ''late'', Resize (Some 42) 120 40, Spawn ''t-3'' (Some 43)]"
          and cols = 120 and rows = 40]
    by (simp add: ex_attached)
qed

lemma resize_unknown:
  "lookup_terminal s h = None \<Longrightarrow> post_terminals_size s h cols rows = (Inl TypeError, s)"
  by (simp add: post_terminals_size_def)

lemma resize_known:
  assumes "lookup_terminal s h = Some r"
  shows "fst (post_terminals_size s h cols rows) = Inr NoBody"
    and "resizes (ptys (snd (post_terminals_size s h cols rows)) r) = resizes (ptys s r) @ [(cols, rows)]"
    and "r' \<noteq> r \<Longrightarrow> ptys (snd (post_terminals_size s h cols rows)) r' = ptys s r'"
    and "terminals (snd (post_terminals_size s h cols rows)) = terminals s"
    and "logs (snd (post_terminals_size s h cols rows)) = logs s"
  using assms by (simp_all add: post_terminals_size_def)

text \<open>
  Claim C6. A resize request whose handle has no entry in \<open>terminals\<close> (unknown, stale
  or unparsable) fails and leaves the whole state as it was; no pty is touched. The
  failure is the \<open>TypeError\<close> of calling \<open>resize\<close> on the undefined lookup result, which
  is what the specification calls \<open>SessionNotFoundError\<close>. For a handle with an entry
  the request succeeds and the geometry is passed to that session's pty and to no
  other.
\<close>

theorem resize_unknown_or_forward:
  "(lookup_terminal s h = None \<longrightarrow> post_terminals_size s h cols rows = (Inl TypeError, s))
   \<and> (lookup_terminal s h = Some r \<longrightarrow>
        fst (post_terminals_size s h cols rows) = Inr NoBody
        \<and> resizes (ptys (snd (post_terminals_size s h cols rows)) r)
            = resizes (ptys s r) @ [(cols, rows)]
        \<and> (\<forall>r'. r' \<noteq> r \<longrightarrow> ptys (snd (post_terminals_size s h cols rows)) r' = ptys s r')
        \<and> terminals (snd (post_terminals_size s h cols rows)) = terminals s)"
  using resize_unknown [where s = s and h = h and cols = cols and rows = rows]
    resize_known [where s = s and h = h and r = r and cols = cols and rows = rows]
  by blast

theorem resize_unknown_or_forward_witness:
  "lookup_terminal init_app (Some 4242) = None
   \<and> post_terminals_size init_app (Some 4242) 120 40 = (Inl TypeError, init_app)
   \<and> lookup_terminal (run init_app [Spawn ''t-2'' (Some 42)]) (Some 42) = Some 0
   \<and> fst (post_terminals_size (run init_app [Spawn ''t-2'' (Some 42)]) (Some 42) 120 40) = Inr NoBody
   \<and> resizes (ptys (snd (post_terminals_size (run init_app [Spawn ''t-2'' (Some 42)]) (Some 42) 120 40)) 0)
       = [(120, 40)]"
proof -
  have a: "lookup_terminal init_app (Some 4242) = None"
    by (simp add: lookup_terminal_def init_app_def)
  have b: "lookup_terminal (run init_app [Spawn ''t-2'' (Some 42)]) (Some 42) = Some 0"
    by (simp add: lookup_terminal_def init_app_def run_def post_terminals_def)
  have c: "resizes (ptys (run init_app [Spawn ''t-2'' (Some 42)]) 0) = []"
    by (simp add: init_app_def run_def post_terminals_def)
  show ?thesis
    using a b c resize_unknown_or_forward [of init_app "Some 4242" 120 40 0]
      resize_unknown_or_forward [of "run init_app [Spawn ''t-2'' (Some 42)]" "Some 42" 120 40 0]
    by simp
qed

lemma run_listener_returns: "\<exists>s'. run_listener p d l s = Inr s'"
  by (cases l) (auto split: sum.splits)

lemma emit_data_returns: "\<exists>s'. emit_data p d ls s = Inr s'"
proof (induction ls arbitrary: s)
  case Nil
  show ?case by simp
next
  case (Cons l ls)
  obtain s1 where "run_listener p d l s = Inr s1"
    using run_listener_returns by blast
  with Cons.IH [of s1] show ?case by simp
qed

lemma forward_closed_swallowed:
  assumes "\<not> ws_open (sockets s w)"
  shows "ws_send s w m = Inl NotOpened" and "run_listener p d (Forward w) s = Inr s"
  using assms by (simp_all add: ws_send_def)

text \<open>
  Claim C7. Emitting a chunk on a pty never throws, whatever the state of the sockets
  its forwarders write to: every listener returns. When the socket of a forwarder is
  not open, \<open>ws.send\<close> throws, the forwarder's \<open>catch\<close> swallows the exception, and
  the state is left as it was.
\<close>

theorem forwarding_never_throws:
  "(\<exists>s'. term_data s r d = Inr s')
   \<and> (\<not> ws_open (sockets s w)
        \<longrightarrow> ws_send s w (Str d) = Inl NotOpened \<and> run_listener p d (Forward w) s = Inr s)"
  using emit_data_returns [of "pid (ptys s r)" d "data_listeners (ptys s r)" s]
    forward_closed_swallowed [of s w]
  by (simp add: term_data_def)

lemma ex_closed_state:
  "sockets (run init_app [Spawn ''t-2'' (Some 42), Connect (Some 42), WsClose 0]) 0
     = \<lparr>ws_open = False, received = [Str []], bound_term = Some 0\<rparr>"
  "data_listeners (ptys (run init_app [Spawn ''t-2'' (Some 42), Connect (Some 42), WsClose 0]) 0)
     = [AppendLog, Forward 0]"
  by (simp_all add: run_def init_app_def post_terminals_def ws_terminals_def ws_send_def
      lookup_terminal_def ws_close_def Let_def)

theorem forwarding_never_throws_witness:
  "\<not> ws_open (sockets (run init_app [Spawn ''t-2'' (Some 42), Connect (Some 42), WsClose 0]) 0)
   \<and> Forward 0 \<in> set (data_listeners
        (ptys (run init_app [Spawn ''t-2'' (Some 42), Connect (Some 42), WsClose 0]) 0))
   \<and> (\<exists>s'. term_data (run init_app [Spawn ''t-2'' (Some 42), Connect (Some 42), WsClose 0])
              0 ''late'' = Inr s')
   \<and> ws_send (run init_app [Spawn ''t-2'' (Some 42), Connect (Some 42), WsClose 0]) 0 (Str ''late'')
       = Inl NotOpened"
  using forwarding_never_throws
      [of "run init_app [Spawn ''t-2'' (Some 42), Connect (Some 42), WsClose 0]" 0 "''late''" 0 42]
  by (simp add: ex_closed_state)

section \<open>Errors at the request boundary\<close>

lemma read_answers_error:
  assumes "sandboxCache fetcher cache now later (taskID q) = (Inl err, cache', n)
           \<or> (sandboxCache fetcher cache now later (taskID q) = (Inr sandbox, cache', n)
              \<and> readSandboxFile (sandbox_args sandbox q, offset q, size_q q) = Inl err)"
  shows "fst (get_sandbox_read fetcher readSandboxFile cache now later q) = handler_catch err"
  using assms by (auto simp: get_sandbox_read_def)

lemma download_answers_error:
  assumes "sandboxCache fetcher cache now later (taskID q) = (Inl err, cache', n)
           \<or> (sandboxCache fetcher cache now later (taskID q) = (Inr sandbox, cache', n)
              \<and> (if directory q = ''true''
                   then downloadSandboxDirectory (sandbox_args sandbox q)
                   else downloadSandboxFileAsStream (sandbox_args sandbox q)) = Inl err)"
  shows "fst (get_sandbox_download fetcher downloadSandboxDirectory downloadSandboxFileAsStream
                cache now later q) = handler_catch err"
  using assms by (auto simp: get_sandbox_download_def)

lemma middleware_answers_error:
  assumes "AUTHORIZATIONS_ENABLED env" and "\<not> AUTHORIZE_ALL_SANDBOXES env"
    and "sandboxCache fetcher cache now later (taskID (query req)) = (Inl err, cache', n)
         \<or> (sandboxCache fetcher cache now later (taskID (query req)) = (Inr sandbox, cache', n)
            \<and> check (req_user req) (task sandbox) (access_token (query req)) = Some err)"
    and "err = MesosAgentNotFoundError \<or> err = TaskNotFoundError
         \<or> err = UnauthorizedAccessError reason"
  shows "sandbox_middleware env fetcher check cache now later req
           = ((Some (handler_catch err), False), cache')"
  using assms
  by (auto simp: sandbox_middleware_def middleware_catch_def handler_catch_def)

lemma handler_responses_distinct:
  "distinct [handler_catch TaskNotFoundError, handler_catch MesosAgentNotFoundError,
     handler_catch FileNotFoundError, handler_catch (UnauthorizedAccessError reason),
     handler_catch OtherError :: 'r response]"
  by (simp add: handler_catch_def)

lemma lookup_terminal_sockets:
  "lookup_terminal (s\<lparr>sockets := x, next_ws := y\<rparr>) h = lookup_terminal s h"
  by (cases h) (simp_all add: lookup_terminal_def)

lemma session_errors_thrown:
  assumes "lookup_terminal s h = None"
  shows "post_terminals_size s h cols rows = (Inl TypeError, s)"
    and "step s (Resize h cols rows) = s"
    and "fst (ws_terminals s h) = Inl TypeError"
    and "terminals (step s (Connect h)) = terminals s"
    and "logs (step s (Connect h)) = logs s"
    and "ptys (step s (Connect h)) = ptys s"
  using assms
  by (simp_all add: post_terminals_size_def ws_terminals_def Let_def lookup_terminal_sockets)

lemma spawn_error_thrown:
  assumes "task_id \<noteq> []"
  shows "post_terminals s task_id None = (Inl PtyError, s)"
    and "step s (Spawn task_id None) = s"
  using assms by (simp_all add: post_terminals_def)

text \<open>
  Claim C8, amended. No error of the taxonomy ends the process, and each of the four
  the code has a class for is mapped to a response at the request boundary, but not to
  a status of its own.

  On a request that the middleware has passed on without answering, an error thrown
  in the browse, read or download handler, by the descriptor lookup or by the sandbox
  I/O call before anything is written to the response, is caught by the handler and
  answered: \<open>MesosAgentNotFoundError\<close> with 400, \<open>UnauthorizedAccessError\<close> with 403,
  \<open>FileNotFoundError\<close> with 404, \<open>TaskNotFoundError\<close> with 404, anything else with 503
  and no body. The five responses are pairwise distinct as status and body together;
  \<open>FileNotFoundError\<close> and \<open>TaskNotFoundError\<close> share the status and differ in the body.
  In the middleware, with authorization enforced, \<open>MesosAgentNotFoundError\<close>,
  \<open>UnauthorizedAccessError\<close> and \<open>TaskNotFoundError\<close> thrown by the lookup or by the check
  get the same responses and the request goes no further.

  \<open>SessionNotFoundError\<close> and \<open>SpawnError\<close> are not classes of the code. A handle
  without an entry makes the resize handler and the WebSocket handler throw a
  \<open>TypeError\<close>, and a failing \<open>pty.spawn\<close> makes the open handler throw. The handlers
  catch neither and write no response, so the code gives these two no status of its
  own. Each is thrown inside a request handler before any session is touched, and the
  server goes on in the state it had (after a refused WebSocket connection: with
  \<open>terminals\<close>, \<open>logs\<close> and the ptys as they were).
\<close>

theorem errors_at_request_boundary:
  fixes browseSandbox :: "sandbox_args \<Rightarrow> error + 'p"
    and readSandboxFile :: "sandbox_args \<times> string \<times> string \<Rightarrow> error + 'a ReadResult"
    and downloadSandboxDirectory :: "sandbox_args \<Rightarrow> error + 'b"
  shows
  "(fst (sandbox_middleware env fetcher_mw check cache_in clock_mw clock_mw' req
          :: (unit response option \<times> bool) \<times> sandbox_cache) = (None, True)
      \<and> cache = snd (sandbox_middleware env fetcher_mw check cache_in clock_mw clock_mw' req
          :: (unit response option \<times> bool) \<times> sandbox_cache)
      \<and> q = query req
    \<longrightarrow>
      ((sandboxCache fetcher_h cache now later (taskID q) = (Inl err, cache', n)
          \<or> (sandboxCache fetcher_h cache now later (taskID q) = (Inr sandbox, cache', n)
               \<and> browseSandbox (sandbox_args sandbox q) = Inl err))
        \<longrightarrow> fst (get_sandbox_browse fetcher_h browseSandbox cache now later q)
              = handler_catch err)
      \<and> ((sandboxCache fetcher_h cache now later (taskID q) = (Inl err, cache', n)
          \<or> (sandboxCache fetcher_h cache now later (taskID q) = (Inr sandbox, cache', n)
               \<and> readSandboxFile (sandbox_args sandbox q, offset q, size_q q) = Inl err))
        \<longrightarrow> fst (get_sandbox_read fetcher_h readSandboxFile cache now later q)
              = handler_catch err)
      \<and> ((sandboxCache fetcher_h cache now later (taskID q) = (Inl err, cache', n)
          \<or> (sandboxCache fetcher_h cache now later (taskID q) = (Inr sandbox, cache', n)
               \<and> (if directory q = ''true''
                    then downloadSandboxDirectory (sandbox_args sandbox q)
                    else downloadSandboxFileAsStream (sandbox_args sandbox q)) = Inl err))
        \<longrightarrow> fst (get_sandbox_download fetcher_h downloadSandboxDirectory
                    downloadSandboxFileAsStream cache now later q)
              = handler_catch err))
   \<and> (handler_catch err :: 'r response) =
       (case err of
          MesosAgentNotFoundError \<Rightarrow> \<lparr>status = 400, body = Text ''Mesos agent not found''\<rparr>
        | TaskNotFoundError \<Rightarrow> \<lparr>status = 404, body = Text ''Task not found''\<rparr>
        | FileNotFoundError \<Rightarrow> \<lparr>status = 404, body = Text ''File not found''\<rparr>
        | UnauthorizedAccessError _ \<Rightarrow> \<lparr>status = 403, body = Text ''Unauthorized''\<rparr>
        | OtherError \<Rightarrow> \<lparr>status = 503, body = Empty\<rparr>)
   \<and> distinct [handler_catch TaskNotFoundError, handler_catch MesosAgentNotFoundError,
        handler_catch FileNotFoundError, handler_catch (UnauthorizedAccessError reason),
        handler_catch OtherError :: 'r response]
   \<and> (AUTHORIZATIONS_ENABLED env \<and> \<not> AUTHORIZE_ALL_SANDBOXES env
        \<and> (sandboxCache fetcher_mw cache_in clock_mw clock_mw' (taskID (query req))
              = (Inl err, cache_mw, n_mw)
            \<or> (sandboxCache fetcher_mw cache_in clock_mw clock_mw' (taskID (query req))
                  = (Inr sandbox_mw, cache_mw, n_mw)
                \<and> check (req_user req) (task sandbox_mw) (access_token (query req)) = Some err))
        \<and> (err = MesosAgentNotFoundError \<or> err = TaskNotFoundError
            \<or> err = UnauthorizedAccessError reason)
      \<longrightarrow> (sandbox_middleware env fetcher_mw check cache_in clock_mw clock_mw' req
             :: ('r response option \<times> bool) \<times> sandbox_cache)
            = ((Some (handler_catch err), False), cache_mw))
   \<and> (lookup_terminal s h = None
      \<longrightarrow> post_terminals_size s h cols rows = (Inl TypeError, s)
          \<and> step s (Resize h cols rows) = s
          \<and> fst (ws_terminals s h) = Inl TypeError
          \<and> terminals (step s (Connect h)) = terminals s
          \<and> logs (step s (Connect h)) = logs s
          \<and> ptys (step s (Connect h)) = ptys s)
   \<and> (task_id \<noteq> []
      \<longrightarrow> post_terminals s task_id None = (Inl PtyError, s)
          \<and> step s (Spawn task_id None) = s)"
proof (intro conjI impI)
  show "fst (get_sandbox_browse fetcher_h browseSandbox cache now later q) = handler_catch err"
    if "sandboxCache fetcher_h cache now later (taskID q) = (Inl err, cache', n)
          \<or> (sandboxCache fetcher_h cache now later (taskID q) = (Inr sandbox, cache', n)
               \<and> browseSandbox (sandbox_args sandbox q) = Inl err)"
    using that by (rule browse_answers_error)
  show "fst (get_sandbox_read fetcher_h readSandboxFile cache now later q) = handler_catch err"
    if "sandboxCache fetcher_h cache now later (taskID q) = (Inl err, cache', n)
          \<or> (sandboxCache fetcher_h cache now later (taskID q) = (Inr sandbox, cache', n)
               \<and> readSandboxFile (sandbox_args sandbox q, offset q, size_q q) = Inl err)"
    using that by (rule read_answers_error)
  show "fst (get_sandbox_download fetcher_h downloadSandboxDirectory
                    downloadSandboxFileAsStream cache now later q) = handler_catch err"
    if "sandboxCache fetcher_h cache now later (taskID q) = (Inl err, cache', n)
          \<or> (sandboxCache fetcher_h cache now later (taskID q) = (Inr sandbox, cache', n)
               \<and> (if directory q = ''true''
                    then downloadSandboxDirectory (sandbox_args sandbox q)
                    else downloadSandboxFileAsStream (sandbox_args sandbox q)) = Inl err)"
    using that by (rule download_answers_error)
  show "(handler_catch err :: 'r response) =
       (case err of
          MesosAgentNotFoundError \<Rightarrow> \<lparr>status = 400, body = Text ''Mesos agent not found''\<rparr>
        | TaskNotFoundError \<Rightarrow> \<lparr>status = 404, body = Text ''Task not found''\<rparr>
        | FileNotFoundError \<Rightarrow> \<lparr>status = 404, body = Text ''File not found''\<rparr>
        | UnauthorizedAccessError _ \<Rightarrow> \<lparr>status = 403, body = Text ''Unauthorized''\<rparr>
        | OtherError \<Rightarrow> \<lparr>status = 503, body = Empty\<rparr>)"
    by (rule handler_catch_table)
  show "distinct [handler_catch TaskNotFoundError, handler_catch MesosAgentNotFoundError,
        handler_catch FileNotFoundError, handler_catch (UnauthorizedAccessError reason),
        handler_catch OtherError :: 'r response]"
    by (rule handler_responses_distinct)
  show "(sandbox_middleware env fetcher_mw check cache_in clock_mw clock_mw' req
             :: ('r response option \<times> bool) \<times> sandbox_cache)
            = ((Some (handler_catch err), False), cache_mw)"
    if "AUTHORIZATIONS_ENABLED env \<and> \<not> AUTHORIZE_ALL_SANDBOXES env
        \<and> (sandboxCache fetcher_mw cache_in clock_mw clock_mw' (taskID (query req))
              = (Inl err, cache_mw, n_mw)
            \<or> (sandboxCache fetcher_mw cache_in clock_mw clock_mw' (taskID (query req))
                  = (Inr sandbox_mw, cache_mw, n_mw)
                \<and> check (req_user req) (task sandbox_mw) (access_token (query req)) = Some err))
        \<and> (err = MesosAgentNotFoundError \<or> err = TaskNotFoundError
            \<or> err = UnauthorizedAccessError reason)"
    using that
      middleware_answers_error [of env fetcher_mw cache_in clock_mw clock_mw' req err
        cache_mw n_mw sandbox_mw check reason]
    by blast
qed (erule session_errors_thrown spawn_error_thrown)+


lemma ex_passed:
  "(sandbox_middleware \<lparr>AUTHORIZATIONS_ENABLED = True, AUTHORIZE_ALL_SANDBOXES = False\<rparr>
      (\<lambda>_. Inr example_sandbox) (\<lambda>_ _ _. None) [] 0 1 example_request
      :: (unit response option \<times> bool) \<times> sandbox_cache)
    = ((None, True), [(''t-1'', \<lparr>expireAt = 10001, locator = example_sandbox\<rparr>)])"
  by (simp add: sandbox_middleware_def sandboxCache_def example_request_def)

lemma ex_cached:
  "sandboxCache (\<lambda>_. Inl TaskNotFoundError)
      [(''t-1'', \<lparr>expireAt = 10001, locator = example_sandbox\<rparr>)] 2 3
      (taskID (query example_request))
    = (Inr example_sandbox, [(''t-1'', \<lparr>expireAt = 10001, locator = example_sandbox\<rparr>)], 0)"
  by (simp add: sandboxCache_def example_request_def)

lemma ex_first_lookup:
  "sandboxCache (\<lambda>_. Inr example_sandbox) [] 0 1 (taskID (query example_request))
    = (Inr example_sandbox, [(''t-1'', \<lparr>expireAt = 10001, locator = example_sandbox\<rparr>)], 1)"
  by (simp add: sandboxCache_def example_request_def)

theorem errors_at_request_boundary_witness:
  "fst (sandbox_middleware \<lparr>AUTHORIZATIONS_ENABLED = True, AUTHORIZE_ALL_SANDBOXES = False\<rparr>
      (\<lambda>_. Inr example_sandbox) (\<lambda>_ _ _. None) [] 0 1 example_request
      :: (unit response option \<times> bool) \<times> sandbox_cache) = (None, True)
   \<and> fst (get_sandbox_browse (\<lambda>_. Inl TaskNotFoundError)
         (\<lambda>_. (Inl FileNotFoundError :: error + string list))
         [(''t-1'', \<lparr>expireAt = 10001, locator = example_sandbox\<rparr>)] 2 3 (query example_request))
     = \<lparr>status = 404, body = Text ''File not found''\<rparr>
   \<and> fst (get_sandbox_read (\<lambda>_. Inl TaskNotFoundError)
         (\<lambda>_. (Inl FileNotFoundError :: error + string ReadResult))
         [(''t-1'', \<lparr>expireAt = 10001, locator = example_sandbox\<rparr>)] 2 3 (query example_request))
     = \<lparr>status = 404, body = Text ''File not found''\<rparr>
   \<and> fst (get_sandbox_download (\<lambda>_. Inl TaskNotFoundError)
         (\<lambda>_. (Inl OtherError :: error + string))
         (\<lambda>_. (Inl FileNotFoundError :: error + string))
         [(''t-1'', \<lparr>expireAt = 10001, locator = example_sandbox\<rparr>)] 2 3 (query example_request))
     = \<lparr>status = 404, body = Text ''File not found''\<rparr>
   \<and> (sandbox_middleware \<lparr>AUTHORIZATIONS_ENABLED = True, AUTHORIZE_ALL_SANDBOXES = False\<rparr>
        (\<lambda>_. Inr example_sandbox)
        (\<lambda>_ _ _. Some (UnauthorizedAccessError ''Unauthorized access to container.''))
        [] 0 1 example_request :: (unit response option \<times> bool) \<times> sandbox_cache)
     = ((Some \<lparr>status = 403, body = Text ''Unauthorized''\<rparr>, False),
        [(''t-1'', \<lparr>expireAt = 10001, locator = example_sandbox\<rparr>)])
   \<and> lookup_terminal init_app (Some 4242) = None
   \<and> post_terminals_size init_app (Some 4242) 120 40 = (Inl TypeError, init_app)
   \<and> step init_app (Resize (Some 4242) 120 40) = init_app
   \<and> post_terminals init_app ''t-2'' None = (Inl PtyError, init_app)"
proof -
  let ?env = "\<lparr>AUTHORIZATIONS_ENABLED = True, AUTHORIZE_ALL_SANDBOXES = False\<rparr>"
  let ?c = "[(''t-1'', \<lparr>expireAt = 10001, locator = example_sandbox\<rparr>)]"
  let ?deny = "\<lambda>(_::User) (_::TaskInfo) (_::string option).
                 Some (UnauthorizedAccessError ''Unauthorized access to container.'')"
  have u: "lookup_terminal init_app (Some 4242) = None"
    by (simp add: lookup_terminal_def init_app_def)
  have d: "directory (query example_request) \<noteq> ''true''"
    by (simp add: example_request_def)
  note inst = errors_at_request_boundary [where env = ?env
      and fetcher_mw = "\<lambda>_. Inr example_sandbox" and cache_in = "[]"
      and clock_mw = 0 and clock_mw' = 1
      and req = example_request and cache = ?c and q = "query example_request"
      and fetcher_h = "\<lambda>_. Inl TaskNotFoundError" and now = 2 and later = 3
      and cache' = ?c and n = 0 and sandbox = example_sandbox
      and browseSandbox = "\<lambda>_. (Inl FileNotFoundError :: error + string list)"
      and readSandboxFile = "\<lambda>_. (Inl FileNotFoundError :: error + string ReadResult)"
      and downloadSandboxDirectory = "\<lambda>_. (Inl OtherError :: error + string)"
      and downloadSandboxFileAsStream = "\<lambda>_. (Inl FileNotFoundError :: error + string)"
      and cache_mw = ?c and n_mw = 1 and sandbox_mw = example_sandbox
      and reason = "''Unauthorized access to container.''"
      and s = init_app and h = "Some 4242" and cols = 120 and rows = 40 and task_id = "''t-2''"]
  have browse: "fst (get_sandbox_browse (\<lambda>_. Inl TaskNotFoundError)
         (\<lambda>_. (Inl FileNotFoundError :: error + string list)) ?c 2 3 (query example_request))
     = \<lparr>status = 404, body = Text ''File not found''\<rparr>"
    using ex_passed ex_cached
      inst [where check = "\<lambda>_ _ _. None" and err = FileNotFoundError
        and ?'r = "string list"]
    by simp
  have read: "fst (get_sandbox_read (\<lambda>_. Inl TaskNotFoundError)
         (\<lambda>_. (Inl FileNotFoundError :: error + string ReadResult)) ?c 2 3 (query example_request))
     = \<lparr>status = 404, body = Text ''File not found''\<rparr>"
    using ex_passed ex_cached
      inst [where check = "\<lambda>_ _ _. None" and err = FileNotFoundError
        and ?'r = "string ReadResult"]
    by simp
  have download: "fst (get_sandbox_download (\<lambda>_. Inl TaskNotFoundError)
         (\<lambda>_. (Inl OtherError :: error + string))
         (\<lambda>_. (Inl FileNotFoundError :: error + string)) ?c 2 3 (query example_request))
     = \<lparr>status = 404, body = Text ''File not found''\<rparr>"
    using ex_passed ex_cached d
      inst [where check = "\<lambda>_ _ _. None" and err = FileNotFoundError
        and ?'r = "string Download"]
    by simp
  have refused: "(sandbox_middleware ?env (\<lambda>_. Inr example_sandbox) ?deny [] 0 1 example_request
        :: (unit response option \<times> bool) \<times> sandbox_cache)
     = ((Some \<lparr>status = 403, body = Text ''Unauthorized''\<rparr>, False), ?c)"
    using ex_first_lookup
      inst [where check = ?deny
        and err = "UnauthorizedAccessError ''Unauthorized access to container.''"
        and ?'r = unit]
    by simp
  have session: "post_terminals_size init_app (Some 4242) 120 40 = (Inl TypeError, init_app)
      \<and> step init_app (Resize (Some 4242) 120 40) = init_app
      \<and> post_terminals init_app ''t-2'' None = (Inl PtyError, init_app)"
    using u
      inst [where check = "\<lambda>_ _ _. None" and err = FileNotFoundError and ?'r = unit]
    by simp
  show ?thesis
    using ex_passed u browse read download refused session by simp
qed

end
